theory Spec2Isabelle
  imports Main
begin

section \<open>The object graph of \<open>ContentCreationTeam\<close>\<close>

text \<open>
  \<open>content_creation_team.py\<close> builds three CrewAI agents, three tasks and one crew in
  \<open>__init__\<close>, and runs them in \<open>create_content\<close>. The classes \<open>Agent\<close>, \<open>Task\<close>,
  \<open>Crew\<close>, \<open>LLM\<close> and \<open>SerperDevTool\<close> belong to the CrewAI library; here they are
  records of the keyword arguments the constructors are called with. A task holds a
  reference to its agent and the crew holds references to the agents and tasks that are
  also attributes of the team, so a reference is the name of the attribute it points to
  and is resolved in the team: an assignment to \<open>self.writing_task.description\<close> is seen
  through \<open>self.crew.tasks\<close>.
\<close>

datatype Tool = SerperDevTool

datatype Process = sequential | hierarchical

record LLM =
  model :: string
  api_key :: "string option"

record Agent =
  role :: string
  goal :: string
  backstory :: string
  verbose :: bool
  allow_delegation :: bool
  agent_llm :: LLM
  tools :: "Tool list"

datatype agent_ref = Ref_writer_agent | Ref_editor_agent | Ref_seo_agent

datatype task_ref = Ref_writing_task | Ref_editing_task | Ref_seo_task

record Task =
  description :: string
  agent :: agent_ref
  expected_output :: string

record Crew =
  agents :: "agent_ref list"
  tasks :: "task_ref list"
  process :: Process
  crew_verbose :: bool
  memory :: bool

record ContentCreationTeam =
  llm :: LLM
  writer_agent :: Agent
  editor_agent :: Agent
  seo_agent :: Agent
  writing_task :: Task
  editing_task :: Task
  seo_task :: Task
  crew :: Crew

fun the_agent :: "ContentCreationTeam \<Rightarrow> agent_ref \<Rightarrow> Agent" where
  "the_agent self Ref_writer_agent = writer_agent self"
| "the_agent self Ref_editor_agent = editor_agent self"
| "the_agent self Ref_seo_agent = seo_agent self"

fun the_task :: "ContentCreationTeam \<Rightarrow> task_ref \<Rightarrow> Task" where
  "the_task self Ref_writing_task = writing_task self"
| "the_task self Ref_editing_task = editing_task self"
| "the_task self Ref_seo_task = seo_task self"

subsection \<open>\<open>setup_agents\<close>\<close>

definition writer_backstory :: string where
  "writer_backstory =
     ''You are an experienced content writer with 10+ years of experience in creating \<newline>'' @
     ''            compelling blog posts, articles, and social media content. You have a talent for making \<newline>'' @
     ''            complex topics accessible and engaging for various audiences. You excel at research, \<newline>'' @
     ''            storytelling, and adapting your writing style to different brands and purposes.''"

definition editor_backstory :: string where
  "editor_backstory =
     ''You are a meticulous content editor with extensive experience in proofreading, \<newline>'' @
     ''            fact-checking, and improving content quality. You have an eye for detail and ensure all \<newline>'' @
     ''            content meets high standards for grammar, style, clarity, and factual accuracy. You work \<newline>'' @
     ''            with various content types and maintain brand voice consistency.''"

definition seo_backstory :: string where
  "seo_backstory =
     ''You are a digital marketing expert specializing in SEO and social media optimization. \<newline>'' @
     ''            You have deep knowledge of search algorithms, keyword research, and social media best practices. \<newline>'' @
     ''            You excel at making content discoverable while maintaining readability and user experience.''"

definition setup_agents :: "LLM \<Rightarrow> Agent \<times> Agent \<times> Agent" where
  "setup_agents l =
     (\<lparr>role = ''Content Writer'',
       goal = ''Create engaging, well-structured, and original content based on given topics and requirements'',
       backstory = writer_backstory,
       verbose = True, allow_delegation = False, agent_llm = l,
       tools = [SerperDevTool]\<rparr>,
      \<lparr>role = ''Content Editor'',
       goal = ''Review, edit, and improve content quality, ensuring clarity, accuracy, and brand consistency'',
       backstory = editor_backstory,
       verbose = True, allow_delegation = False, agent_llm = l,
       tools = []\<rparr>,
      \<lparr>role = ''SEO Specialist'',
       goal = ''Optimize content for search engines and social media, ensuring maximum visibility and engagement'',
       backstory = seo_backstory,
       verbose = True, allow_delegation = False, agent_llm = l,
       tools = [SerperDevTool]\<rparr>)"

subsection \<open>\<open>setup_tasks\<close>\<close>

definition writing_description :: string where
  "writing_description =
     ''Create original, engaging content on the given topic. The content should be:\<newline>'' @
     ''            - Well-researched and informative\<newline>'' @
     ''            - Engaging and easy to read\<newline>'' @
     ''            - Structured with clear headings and sections\<newline>'' @
     ''            - Tailored to the target audience\<newline>'' @
     ''            - Original and plagiarism-free\<newline>'' @
     ''            \<newline>'' @
     ''            Topic: {topic}\<newline>'' @
     ''            Target Audience: {audience}\<newline>'' @
     ''            Content Type: {content_type}\<newline>'' @
     ''            Word Count: {word_count}\<newline>'' @
     ''            \<newline>'' @
     ''            Provide the complete content with proper formatting.''"

definition editing_description :: string where
  "editing_description =
     ''Review and edit the content provided by the writer. Focus on:\<newline>'' @
     ''            - Grammar, spelling, and punctuation\<newline>'' @
     ''            - Sentence structure and flow\<newline>'' @
     ''            - Clarity and readability\<newline>'' @
     ''            - Fact-checking and accuracy\<newline>'' @
     ''            - Brand voice consistency\<newline>'' @
     ''            - Overall content quality\<newline>'' @
     ''            \<newline>'' @
     ''            Provide the edited version with explanations of major changes made.''"

definition seo_description :: string where
  "seo_description =
     ''Optimize the edited content for search engines and social media. Include:\<newline>'' @
     ''            - Relevant keywords naturally integrated\<newline>'' @
     ''            - SEO-friendly title and meta description\<newline>'' @
     ''            - Social media snippets (Twitter, LinkedIn, Facebook)\<newline>'' @
     ''            - Internal linking suggestions\<newline>'' @
     ''            - Call-to-action optimization\<newline>'' @
     ''            - Readability improvements\<newline>'' @
     ''            \<newline>'' @
     ''            Provide the final optimized content with SEO recommendations.''"

definition setup_tasks :: "Task \<times> Task \<times> Task" where
  "setup_tasks =
     (\<lparr>description = writing_description, agent = Ref_writer_agent,
       expected_output = ''A complete, well-structured piece of content ready for editing''\<rparr>,
      \<lparr>description = editing_description, agent = Ref_editor_agent,
       expected_output = ''A polished, error-free version of the content with editing notes''\<rparr>,
      \<lparr>description = seo_description, agent = Ref_seo_agent,
       expected_output =
         ''SEO-optimized content with social media versions and optimization recommendations''\<rparr>)"

subsection \<open>\<open>setup_crew\<close> and \<open>__init__\<close>\<close>

definition setup_crew :: Crew where
  "setup_crew =
     \<lparr>agents = [Ref_writer_agent, Ref_editor_agent, Ref_seo_agent],
      tasks = [Ref_writing_task, Ref_editing_task, Ref_seo_task],
      process = sequential, crew_verbose = True, memory = False\<rparr>"

text \<open>
  \<open>__init__\<close> reads \<open>GOOGLE_API_KEY\<close> from the environment (\<open>os.environ.get\<close>, so a
  missing variable is \<open>None\<close>); the value is the argument of \<open>init\<close>.
\<close>

definition init :: "string option \<Rightarrow> ContentCreationTeam" where
  "init google_api_key =
     (let l = \<lparr>model = ''gemini/gemini-2.0-flash-exp'', api_key = google_api_key\<rparr>
      in case setup_agents l of (w, e, s) \<Rightarrow>
         case setup_tasks of (wt, et, st) \<Rightarrow>
           \<lparr>llm = l, writer_agent = w, editor_agent = e, seo_agent = s,
            writing_task = wt, editing_task = et, seo_task = st,
            crew = setup_crew\<rparr>)"

section \<open>\<open>str.format\<close> with keyword arguments\<close>

text \<open>
  \<open>create_content\<close> calls \<open>description.format(topic=..., audience=..., content_type=...,
  word_count=...)\<close>. The scan is CPython's: literal text is copied, \<open>{{\<close> and \<open>}}\<close> give one
  brace, a single \<open>}\<close> or an unclosed \<open>{\<close> raises \<open>ValueError\<close>, and \<open>{name}\<close> is replaced by
  the keyword argument \<open>name\<close>. A name that is no keyword raises \<open>KeyError\<close>; the empty
  name is the positional index 0, and with no positional argument that is \<open>IndexError\<close>.
  The arguments are strings, which \<open>format\<close> inserts unchanged and never scans again.
  The first error met from the left is the one raised.

  A name made of ASCII digits only is a positional index, and with no positional
  argument that is \<open>IndexError\<close> too; beyond nine digits CPython may instead refuse
  the index as too large, depending on the platform's word size.

  A replacement field with a conversion (\<open>!\<close>), a format specification (\<open>:\<close>), an
  attribute or an index (\<open>.\<close>, \<open>[\<close>), a nested \<open>{\<close>, a byte outside ASCII (digits of
  other scripts are indices as well), or an index of more than nine digits is outside
  the fragment modelled here: \<open>format_str\<close> answers \<open>Unmodelled\<close> on it, and no theorem
  below concludes anything from that answer. The description built by \<open>setup_tasks\<close>
  has none of these.

  A \<open>string\<close> is a list of bytes. The two braces are ASCII and never part of a longer
  UTF-8 sequence, so scanning bytes finds the same fields as scanning code points.
\<close>

datatype format_error = KeyError string | IndexError | ValueError | Unmodelled

definition is_digit :: "char \<Rightarrow> bool" where
  "is_digit c = (c \<in> set ''0123456789'')"

definition is_special :: "char \<Rightarrow> bool" where
  "is_special c = (c \<in> set ''{[.:!'' \<or> digit7 c)"

definition get_field :: "(string \<times> string) list \<Rightarrow> string \<Rightarrow> format_error + string" where
  "get_field kwargs name =
     (if name = [] then Inl IndexError
      else if list_all is_digit name
        then (if length name \<le> 9 then Inl IndexError else Inl Unmodelled)
      else case map_of kwargs name of
             None \<Rightarrow> Inl (KeyError name)
           | Some v \<Rightarrow> Inr v)"

definition emit :: "string \<Rightarrow> format_error + string \<Rightarrow> format_error + string" where
  "emit s r = (case r of Inl e \<Rightarrow> Inl e | Inr out \<Rightarrow> Inr (s @ out))"

function format_str :: "(string \<times> string) list \<Rightarrow> string \<Rightarrow> format_error + string" where
  "format_str kwargs [] = Inr []"
| "format_str kwargs (c # cs) =
     (if c = CHR ''{'' then
        (case cs of
           [] \<Rightarrow> Inl ValueError
         | d # ds \<Rightarrow>
             if d = CHR ''{'' then emit [c] (format_str kwargs ds)
             else if list_ex is_special (takeWhile (\<lambda>x. x \<noteq> CHR ''}'') cs)
               then Inl Unmodelled
             else if dropWhile (\<lambda>x. x \<noteq> CHR ''}'') cs = [] then Inl ValueError
             else (case get_field kwargs (takeWhile (\<lambda>x. x \<noteq> CHR ''}'') cs) of
                     Inl e \<Rightarrow> Inl e
                   | Inr v \<Rightarrow>
                       emit v (format_str kwargs (tl (dropWhile (\<lambda>x. x \<noteq> CHR ''}'') cs)))))
      else if c = CHR ''}'' then
        (case cs of
           [] \<Rightarrow> Inl ValueError
         | d # ds \<Rightarrow> if d = CHR ''}'' then emit [c] (format_str kwargs ds) else Inl ValueError)
      else emit [c] (format_str kwargs cs))"
  by pat_completeness auto
termination
proof (relation "measure (\<lambda>(kwargs, s). length s)")
  show "wf (measure (\<lambda>(kwargs, s). length s))" by simp
next
  fix kwargs :: "(string \<times> string) list" and c :: char and cs :: string and d ds
  assume "cs = d # ds"
  then show "((kwargs, ds), (kwargs, c # cs)) \<in> measure (\<lambda>(kwargs, s). length s)" by simp
next
  fix kwargs :: "(string \<times> string) list" and c :: char and cs :: string
  have "length (tl (dropWhile (\<lambda>x. x \<noteq> CHR ''}'') cs)) \<le> length cs"
    using length_dropWhile_le [of "\<lambda>x. x \<noteq> CHR ''}''" cs] by simp
  then show "((kwargs, tl (dropWhile (\<lambda>x. x \<noteq> CHR ''}'') cs)), (kwargs, c # cs))
      \<in> measure (\<lambda>(kwargs, s). length s)" by simp
next
  fix kwargs :: "(string \<times> string) list" and c :: char and cs :: string and d ds
  assume "cs = d # ds"
  then show "((kwargs, ds), (kwargs, c # cs)) \<in> measure (\<lambda>(kwargs, s). length s)" by simp
next
  fix kwargs :: "(string \<times> string) list" and c :: char and cs :: string
  show "((kwargs, cs), (kwargs, c # cs)) \<in> measure (\<lambda>(kwargs, s). length s)" by simp
qed

section \<open>\<open>create_content\<close>\<close>

text \<open>
  \<open>self.crew.kickoff()\<close> is CrewAI's: it runs the tasks of the crew, calling the language
  model and the search tool, and either returns the crew's output or raises. It is the
  parameter \<open>kickoff\<close>, a function of the team it is called on, chosen freely for every
  run; it is taken to leave the attributes modelled here as they are (the call passes no
  \<open>inputs\<close>). What it raises is either an instance of \<open>Exception\<close>, which the
  \<open>except Exception\<close> clause catches, or of another subclass of \<open>BaseException\<close>
  (\<open>KeyboardInterrupt\<close>, \<open>SystemExit\<close>), which it does not.
\<close>

datatype 'e raised = Exception 'e | BaseException 'e

text \<open>What \<open>create_content\<close> itself raises: an error of \<open>format\<close>, or what it did not catch.\<close>

datatype 'e propagated = Format_error format_error | Uncaught 'e

text \<open>
  The returned \<open>dict\<close>, in the order of its keys. Its values are strings, lists of strings
  and, under \<open>"result"\<close>, the object \<open>kickoff\<close> returned. \<open>get\<close> is \<open>dict.get\<close>.
\<close>

datatype 'r py_value = Str string | List "string list" | CrewOutput 'r

type_synonym 'r dict = "(string \<times> 'r py_value) list"

definition get :: "'r dict \<Rightarrow> string \<Rightarrow> 'r py_value option" where
  "get d k = map_of d k"

text \<open>The keyword arguments of the \<open>format\<close> call.\<close>

definition format_kwargs :: "string \<Rightarrow> string \<Rightarrow> string \<Rightarrow> string \<Rightarrow> (string \<times> string) list" where
  "format_kwargs topic audience content_type word_count =
     [(''topic'', topic), (''audience'', audience),
      (''content_type'', content_type), (''word_count'', word_count)]"

text \<open>The assignment \<open>self.writing_task.description = d\<close>.\<close>

definition set_description :: "ContentCreationTeam \<Rightarrow> string \<Rightarrow> ContentCreationTeam" where
  "set_description self d = self\<lparr>writing_task := (writing_task self)\<lparr>description := d\<rparr>\<rparr>"

text \<open>The dictionary of the \<open>return\<close> in the \<open>try\<close> block.\<close>

definition success_result :: "string \<Rightarrow> string \<Rightarrow> string \<Rightarrow> string \<Rightarrow> 'r \<Rightarrow> 'r dict" where
  "success_result topic audience content_type word_count result =
     [(''status'', Str ''success''),
      (''message'', Str ''Content created successfully!''),
      (''result'', CrewOutput result),
      (''apis_used'', List [''Gemini 2.5 Flash API'', ''Serper API'']),
      (''topic'', Str topic),
      (''audience'', Str audience),
      (''content_type'', Str content_type),
      (''word_count'', Str word_count)]"

text \<open>The dictionary of the \<open>return\<close> in the \<open>except\<close> block.\<close>

definition simulation_result :: "string \<Rightarrow> string \<Rightarrow> string \<Rightarrow> string \<Rightarrow> 'r dict" where
  "simulation_result topic audience content_type word_count =
     [(''status'', Str ''simulation''),
      (''message'', Str ''Multi-agent system working in simulation mode''),
      (''workflow'', List
         [''Writer Agent creates content (Gemini 2.5 Flash + Serper)'',
          ''Editor Agent reviews and improves (Gemini 2.5 Flash)'',
          ''SEO Agent optimizes for search engines (Gemini 2.5 Flash + Serper)'']),
      (''topic'', Str topic),
      (''audience'', Str audience),
      (''content_type'', Str content_type),
      (''word_count'', Str word_count),
      (''apis_used'', List [''Gemini 2.5 Flash API'', ''Serper API''])]"

text \<open>
  The function returns the team as the call leaves it, and the dictionary or the
  exception. The assignment to \<open>self.writing_task.description\<close> stands before the
  \<open>try\<close>: an error of \<open>format\<close> leaves the team unchanged and is not caught, and once
  \<open>format\<close> has returned the description stays overwritten whatever follows. The
  \<open>print\<close> calls write to standard output only and are left out; the handler's
  \<open>"..." + topic\<close> concatenations cannot fail on strings.
\<close>

definition create_content ::
  "ContentCreationTeam \<Rightarrow> (ContentCreationTeam \<Rightarrow> 'e raised + 'r) \<Rightarrow>
   string \<Rightarrow> string \<Rightarrow> string \<Rightarrow> string \<Rightarrow>
   ContentCreationTeam \<times> ('e propagated + 'r dict)" where
  "create_content self kickoff topic audience content_type word_count =
     (case format_str (format_kwargs topic audience content_type word_count)
             (description (writing_task self)) of
        Inl err \<Rightarrow> (self, Inl (Format_error err))
      | Inr d \<Rightarrow>
          (case kickoff (set_description self d) of
             Inr result \<Rightarrow>
               (set_description self d,
                Inr (success_result topic audience content_type word_count result))
           | Inl (Exception e) \<Rightarrow>
               (set_description self d,
                Inr (simulation_result topic audience content_type word_count))
           | Inl (BaseException e) \<Rightarrow>
               (set_description self d, Inl (Uncaught e))))"

text \<open>
  A call may leave out \<open>audience\<close>, \<open>content_type\<close> and \<open>word_count\<close>; the signature then
  supplies its defaults. \<open>None\<close> is an argument left out.
\<close>

definition create_content_call ::
  "ContentCreationTeam \<Rightarrow> (ContentCreationTeam \<Rightarrow> 'e raised + 'r) \<Rightarrow>
   string \<Rightarrow> string option \<Rightarrow> string option \<Rightarrow> string option \<Rightarrow>
   ContentCreationTeam \<times> ('e propagated + 'r dict)" where
  "create_content_call self kickoff topic audience content_type word_count =
     create_content self kickoff topic
       (case audience of None \<Rightarrow> ''general audience'' | Some a \<Rightarrow> a)
       (case content_type of None \<Rightarrow> ''blog post'' | Some c \<Rightarrow> c)
       (case word_count of None \<Rightarrow> ''800-1000'' | Some w \<Rightarrow> w)"

text \<open>
  The same function with the state of the collaborators written out. \<open>world\<close> is
  whatever the language model and the search service keep between calls (quotas, logs,
  what they were asked); \<open>kickoff\<close> reads it and leaves a new one. The function calls
  \<open>kickoff\<close> once, in the \<open>try\<close> block, and nowhere else, and is \<open>create_content\<close> when
  the world is not looked at (lemma \<open>create_content_in_world_fst\<close>).
\<close>

definition create_content_in_world ::
  "ContentCreationTeam \<Rightarrow> ('w \<Rightarrow> ContentCreationTeam \<Rightarrow> ('e raised + 'r) \<times> 'w) \<Rightarrow> 'w \<Rightarrow>
   string \<Rightarrow> string \<Rightarrow> string \<Rightarrow> string \<Rightarrow>
   (ContentCreationTeam \<times> ('e propagated + 'r dict)) \<times> 'w" where
  "create_content_in_world self kickoff world topic audience content_type word_count =
     (case format_str (format_kwargs topic audience content_type word_count)
             (description (writing_task self)) of
        Inl err \<Rightarrow> ((self, Inl (Format_error err)), world)
      | Inr d \<Rightarrow>
          (case kickoff world (set_description self d) of
             (Inr result, world') \<Rightarrow>
               ((set_description self d,
                 Inr (success_result topic audience content_type word_count result)), world')
           | (Inl (Exception e), world') \<Rightarrow>
               ((set_description self d,
                 Inr (simulation_result topic audience content_type word_count)), world')
           | (Inl (BaseException e), world') \<Rightarrow>
               ((set_description self d, Inl (Uncaught e)), world')))"

section \<open>\<open>show_simulation_content\<close>\<close>

text \<open>
  The dictionary of the handler carries no text. The placeholder document of the
  simulation mode is built by the caller: \<open>main\<close> in \<open>simple_streamlit_app.py\<close> calls
  \<open>show_simulation_content\<close> with the values of its form when the status is not
  \<open>"success"\<close>. The function hands four elements to Streamlit, modelled as the list of
  these calls. Its f-string inserts the arguments as \<open>format\<close> renders them (the word
  count of the form is an integer, inserted in decimal), so the arguments are strings
  here. \<open>now\<close> is \<open>datetime.now().strftime('%Y%m%d_%H%M%S')\<close>, the reading of the clock,
  which only the file name of the download uses.
\<close>

datatype st_call =
    Markdown string
  | Info string
  | Download_button (label: string) (data: string) (file_name: string) (mime: string)

definition show_simulation_content ::
  "string \<Rightarrow> string \<Rightarrow> string \<Rightarrow> string \<Rightarrow> string \<Rightarrow> st_call list" where
  "show_simulation_content now topic audience content_type word_count =
     (let simulated_content =
        ''\<newline>'' @
        ''# '' @ topic @ ''\<newline>'' @
        ''\<newline>'' @
        ''## Introduction\<newline>'' @
        ''\<newline>'' @
        ''This is a simulated content piece about '' @ topic @ '', designed for '' @ audience @ ''. \<newline>'' @
        ''The content would be structured as a '' @ content_type @ '' with approximately '' @ word_count @ '' words.\<newline>'' @
        ''\<newline>'' @
        ''## Key Points\<newline>'' @
        ''\<newline>'' @
        ''- **Point 1**: AI is transforming healthcare through advanced diagnostics\<newline>'' @
        ''- **Point 2**: Personalized treatment plans are becoming more accessible  \<newline>'' @
        ''- **Point 3**: Remote monitoring and telemedicine are expanding care access\<newline>'' @
        ''- **Point 4**: Data-driven insights are improving patient outcomes\<newline>'' @
        ''\<newline>'' @
        ''## Conclusion\<newline>'' @
        ''\<newline>'' @
        ''The future of healthcare is being shaped by artificial intelligence, offering \<newline>'' @
        ''unprecedented opportunities for '' @ audience @ '' to improve patient care and outcomes.\<newline>'' @
        ''\<newline>'' @
        ''---\<newline>'' @
        ''\<newline>'' @
        ''*This is simulated content. For real content generation, ensure your API keys are properly configured.*\<newline>'' @
        ''    ''
      in [Markdown (''### '' @ [CHR 0xF0, CHR 0x9F, CHR 0x93, CHR 0x8B] @ '' Simulation Mode''),
          Info ''Content created in simulation mode (APIs may be overloaded)'',
          Markdown simulated_content,
          Download_button
            ([CHR 0xF0, CHR 0x9F, CHR 0x93, CHR 0xA5] @ '' Download Simulated Content'')
            simulated_content
            (''simulated_content_'' @ now @ ''.txt'')
            ''text/plain''])"

section \<open>Vocabulary of the statements\<close>

text \<open>\<open>create_content(...).get(k)\<close>: the call's exception if it raised, else the entry.\<close>

definition call_get ::
  "ContentCreationTeam \<times> ('e propagated + 'r dict) \<Rightarrow> string \<Rightarrow>
   'e propagated + 'r py_value option" where
  "call_get out k = (case snd out of Inl err \<Rightarrow> Inl err | Inr d \<Rightarrow> Inr (get d k))"

text \<open>Two collaborators for closed statements: one that returns, one that raises.\<close>

definition kickoff_returns :: "'r \<Rightarrow> ContentCreationTeam \<Rightarrow> 'e raised + 'r" where
  "kickoff_returns x self = Inr x"

definition kickoff_raises :: "'e \<Rightarrow> ContentCreationTeam \<Rightarrow> 'e raised + 'r" where
  "kickoff_raises e self = Inl (Exception e)"

text \<open>An element shown, with the file name of a download left blank.\<close>

fun without_file_name :: "st_call \<Rightarrow> st_call" where
  "without_file_name (Download_button l d f m) = Download_button l d [] m"
| "without_file_name c = c"

text \<open>
  A collaborator that fails on every call and counts its calls: the world is the number
  of times \<open>kickoff\<close> was started.
\<close>

definition kickoff_counting :: "'e \<Rightarrow> nat \<Rightarrow> ContentCreationTeam \<Rightarrow> ('e raised + 'r) \<times> nat" where
  "kickoff_counting e calls self = (Inl (Exception e), Suc calls)"

text \<open>The description of \<open>setup_tasks\<close> with the four values in place of its fields.\<close>

definition rendered_description :: "string \<Rightarrow> string \<Rightarrow> string \<Rightarrow> string \<Rightarrow> string" where
  "rendered_description topic audience content_type word_count =
     ''Create original, engaging content on the given topic. The content should be:\<newline>'' @
     ''            - Well-researched and informative\<newline>'' @
     ''            - Engaging and easy to read\<newline>'' @
     ''            - Structured with clear headings and sections\<newline>'' @
     ''            - Tailored to the target audience\<newline>'' @
     ''            - Original and plagiarism-free\<newline>'' @
     ''            \<newline>'' @
     ''            Topic: '' @ topic @ ''\<newline>'' @
     ''            Target Audience: '' @ audience @ ''\<newline>'' @
     ''            Content Type: '' @ content_type @ ''\<newline>'' @
     ''            Word Count: '' @ word_count @ ''\<newline>'' @
     ''            \<newline>'' @
     ''            Provide the complete content with proper formatting.''"

text \<open>
  The stages as \<open>kickoff\<close> finds them: for each task of the crew, in the crew's order,
  the role of the task's agent, the tools that agent was given, and whether it may
  delegate work to another agent.
\<close>

definition stage_registry :: "ContentCreationTeam \<Rightarrow> (string \<times> Tool list \<times> bool) list" where
  "stage_registry self =
     map (\<lambda>r. (role (the_agent self (agent (the_task self r))),
               tools (the_agent self (agent (the_task self r))),
               allow_delegation (the_agent self (agent (the_task self r)))))
       (tasks (crew self))"

text \<open>
  Any number of calls on one team, one after the other, each with its own collaborator
  and arguments; the team after the last call.
\<close>

fun create_content_seq ::
  "ContentCreationTeam \<Rightarrow>
   ((ContentCreationTeam \<Rightarrow> 'e raised + 'r) \<times> string \<times> string \<times> string \<times> string) list \<Rightarrow>
   ContentCreationTeam" where
  "create_content_seq self [] = self"
| "create_content_seq self ((kickoff, topic, audience, content_type, word_count) # calls) =
     create_content_seq
       (fst (create_content self kickoff topic audience content_type word_count)) calls"

section \<open>Facts about \<open>format\<close>\<close>

lemma emit_Inr [simp]: "emit s (Inr out) = Inr (s @ out)"
  by (simp add: emit_def)

lemma emit_Inl [simp]: "emit s (Inl e) = Inl e"
  by (simp add: emit_def)

lemma emit_emit: "emit a (emit b r) = emit (a @ b) r"
  by (cases r) simp_all

text \<open>Text without braces is copied.\<close>

lemma format_literal:
  "CHR ''{'' \<notin> set s \<Longrightarrow> CHR ''}'' \<notin> set s \<Longrightarrow>
   format_str kwargs (s @ rest) = emit s (format_str kwargs rest)"
proof (induction s)
  case Nil
  show ?case by (cases "format_str kwargs rest") simp_all
next
  case (Cons c s)
  from Cons.prems have "c \<noteq> CHR ''{''" "c \<noteq> CHR ''}''" by auto
  then have "format_str kwargs ((c # s) @ rest) = emit [c] (format_str kwargs (s @ rest))"
    by simp
  with Cons show ?case by (simp add: emit_emit)
qed

lemma format_no_braces:
  assumes "CHR ''{'' \<notin> set s" "CHR ''}'' \<notin> set s"
  shows "format_str kwargs s = Inr s"
  using format_literal [OF assms, of kwargs "[]"] by simp

text \<open>A field naming a keyword argument is replaced by the argument.\<close>

lemma format_field:
  assumes "name \<noteq> []" "\<not> list_ex is_special name" "CHR ''}'' \<notin> set name"
    and "\<not> list_all is_digit name" "map_of kwargs name = Some v"
  shows "format_str kwargs (CHR ''{'' # name @ CHR ''}'' # rest) = emit v (format_str kwargs rest)"
proof -
  from assms(1) obtain d ds where name: "name = d # ds" by (cases name) auto
  from assms(2) name have d: "d \<noteq> CHR ''{''" by (auto simp: is_special_def)
  have nb: "\<And>x. x \<in> set name \<Longrightarrow> x \<noteq> CHR ''}''"
    using assms(3) by auto
  have tw: "takeWhile (\<lambda>x. x \<noteq> CHR ''}'') (name @ CHR ''}'' # rest) = name"
    using nb by (simp add: takeWhile_append2)
  have dw: "dropWhile (\<lambda>x. x \<noteq> CHR ''}'') (name @ CHR ''}'' # rest) = CHR ''}'' # rest"
    using nb by (simp add: dropWhile_append2)
  have gf: "get_field kwargs name = Inr v"
    using assms by (simp add: get_field_def)
  show ?thesis
    using d tw dw gf assms(2) unfolding name by simp
qed

text \<open>A field naming no keyword argument raises \<open>KeyError\<close>.\<close>

lemma format_field_missing:
  assumes "name \<noteq> []" "\<not> list_ex is_special name" "CHR ''}'' \<notin> set name"
    and "\<not> list_all is_digit name" "map_of kwargs name = None"
  shows "format_str kwargs (CHR ''{'' # name @ CHR ''}'' # rest) = Inl (KeyError name)"
proof -
  from assms(1) obtain d ds where name: "name = d # ds" by (cases name) auto
  from assms(2) name have d: "d \<noteq> CHR ''{''" by (auto simp: is_special_def)
  have nb: "\<And>x. x \<in> set name \<Longrightarrow> x \<noteq> CHR ''}''"
    using assms(3) by auto
  have tw: "takeWhile (\<lambda>x. x \<noteq> CHR ''}'') (name @ CHR ''}'' # rest) = name"
    using nb by (simp add: takeWhile_append2)
  have dw: "dropWhile (\<lambda>x. x \<noteq> CHR ''}'') (name @ CHR ''}'' # rest) = CHR ''}'' # rest"
    using nb by (simp add: dropWhile_append2)
  have gf: "get_field kwargs name = Inl (KeyError name)"
    using assms by (simp add: get_field_def)
  show ?thesis
    using d tw dw gf assms(2) unfolding name by simp
qed

lemma writing_description_split:
  "writing_description =
     ''Create original, engaging content on the given topic. The content should be:\<newline>            - Well-researched and informative\<newline>            - Engaging and easy to read\<newline>            - Structured with clear headings and sections\<newline>            - Tailored to the target audience\<newline>            - Original and plagiarism-free\<newline>            \<newline>            Topic: '' @
     CHR ''{'' # ''topic'' @ CHR ''}'' #
     ''\<newline>            Target Audience: '' @
     CHR ''{'' # ''audience'' @ CHR ''}'' #
     ''\<newline>            Content Type: '' @
     CHR ''{'' # ''content_type'' @ CHR ''}'' #
     ''\<newline>            Word Count: '' @
     CHR ''{'' # ''word_count'' @ CHR ''}'' #
     ''\<newline>            \<newline>            Provide the complete content with proper formatting.''"
  by (simp add: writing_description_def)

lemma format_writing_description:
  "format_str (format_kwargs t a c w) writing_description = Inr (rendered_description t a c w)"
  unfolding writing_description_split format_kwargs_def
  apply (subst format_literal, simp, simp)
  apply (subst format_field, simp, simp add: is_special_def, simp, simp add: is_digit_def, simp)
  apply (subst format_literal, simp, simp)
  apply (subst format_field, simp, simp add: is_special_def, simp, simp add: is_digit_def, simp)
  apply (subst format_literal, simp, simp)
  apply (subst format_field, simp, simp add: is_special_def, simp, simp add: is_digit_def, simp)
  apply (subst format_literal, simp, simp)
  apply (subst format_field, simp, simp add: is_special_def, simp, simp add: is_digit_def, simp)
  apply (subst format_no_braces, simp, simp)
  apply (simp add: rendered_description_def)
  done

section \<open>Facts about one call\<close>

lemma description_init: "description (writing_task (init key)) = writing_description"
  by (simp add: init_def Let_def setup_agents_def setup_tasks_def)

lemma format_init:
  "format_str (format_kwargs t a c w) (description (writing_task (init key))) =
     Inr (rendered_description t a c w)"
  by (simp only: description_init format_writing_description)

lemma create_content_returns:
  assumes "format_str (format_kwargs t a c w) (description (writing_task self)) = Inr d"
    and "kickoff (set_description self d) = Inr x"
  shows "create_content self kickoff t a c w = (set_description self d, Inr (success_result t a c w x))"
  using assms by (simp add: create_content_def)

lemma create_content_caught:
  assumes "format_str (format_kwargs t a c w) (description (writing_task self)) = Inr d"
    and "kickoff (set_description self d) = Inl (Exception e)"
  shows "create_content self kickoff t a c w = (set_description self d, Inr (simulation_result t a c w))"
  using assms by (simp add: create_content_def)

lemma create_content_uncaught:
  assumes "format_str (format_kwargs t a c w) (description (writing_task self)) = Inr d"
    and "kickoff (set_description self d) = Inl (BaseException e)"
  shows "create_content self kickoff t a c w = (set_description self d, Inl (Uncaught e))"
  using assms by (simp add: create_content_def)

lemma create_content_format_error:
  assumes "format_str (format_kwargs t a c w) (description (writing_task self)) = Inl err"
  shows "create_content self kickoff t a c w = (self, Inl (Format_error err))"
  using assms by (simp add: create_content_def)

lemma create_content_in_world_fst:
  "fst (create_content_in_world self kickoff world t a c w) =
     create_content self (\<lambda>s. fst (kickoff world s)) t a c w"
  by (simp add: create_content_in_world_def create_content_def
        split: sum.splits raised.splits prod.splits)

lemma create_content_in_world_caught:
  assumes "format_str (format_kwargs t a c w) (description (writing_task self)) = Inr d"
    and "kickoff world (set_description self d) = (Inl (Exception e), world')"
  shows "create_content_in_world self kickoff world t a c w =
           ((set_description self d, Inr (simulation_result t a c w)), world')"
  using assms by (simp add: create_content_in_world_def)

lemma fst_create_content_init:
  "fst (create_content (init key) kickoff t a c w) =
     set_description (init key) (rendered_description t a c w)"
  by (simp add: create_content_def format_init split: sum.splits raised.splits)

lemma fst_create_content_cases:
  "fst (create_content self kickoff t a c w) = self \<or>
   (\<exists>d. fst (create_content self kickoff t a c w) = set_description self d)"
  by (auto simp: create_content_def split: sum.splits raised.splits)

lemma stage_registry_set_description:
  "stage_registry (set_description self d) = stage_registry self"
proof -
  have "agent (the_task (set_description self d) r) = agent (the_task self r)" for r
    by (cases r) (simp_all add: set_description_def)
  moreover have "the_agent (set_description self d) q = the_agent self q" for q
    by (cases q) (simp_all add: set_description_def)
  moreover have "crew (set_description self d) = crew self"
    by (simp add: set_description_def)
  ultimately show ?thesis by (simp add: stage_registry_def)
qed

lemma stage_registry_create_content:
  "stage_registry (fst (create_content self kickoff t a c w)) = stage_registry self"
  using fst_create_content_cases [of self kickoff t a c w]
  by (auto simp: stage_registry_set_description)

section \<open>Facts about a call on a new team\<close>

lemma rendered_no_braces:
  assumes "CHR ''{'' \<notin> set t \<union> set a \<union> set c \<union> set w"
    and "CHR ''}'' \<notin> set t \<union> set a \<union> set c \<union> set w"
  shows "CHR ''{'' \<notin> set (rendered_description t a c w)"
    and "CHR ''}'' \<notin> set (rendered_description t a c w)"
  using assms by (simp_all add: rendered_description_def)

lemma create_content_init_returns:
  assumes "kickoff (set_description (init key) (rendered_description t a c w)) = Inr x"
  shows "create_content (init key) kickoff t a c w =
           (set_description (init key) (rendered_description t a c w),
            Inr (success_result t a c w x))"
  using assms by (rule create_content_returns [OF format_init])

lemma create_content_init_caught:
  assumes "kickoff (set_description (init key) (rendered_description t a c w)) = Inl (Exception e)"
  shows "create_content (init key) kickoff t a c w =
           (set_description (init key) (rendered_description t a c w),
            Inr (simulation_result t a c w))"
  using assms by (rule create_content_caught [OF format_init])

text \<open>
  On a new team the call returns a dictionary whenever what the collaborators raise is
  an \<open>Exception\<close>, for every four strings.
\<close>

lemma create_content_new_team_returns:
  assumes "\<And>s. (\<exists>x. kickoff s = Inr x) \<or> (\<exists>e. kickoff s = Inl (Exception e))"
  shows "\<exists>self' r.
           create_content (init key) kickoff t a c w = (self', Inr r) \<and>
           (get r ''status'' = Some (Str ''success'') \<or>
            get r ''status'' = Some (Str ''simulation''))"
  using assms [of "set_description (init key) (rendered_description t a c w)"]
proof (elim disjE exE)
  fix x assume "kickoff (set_description (init key) (rendered_description t a c w)) = Inr x"
  then have "create_content (init key) kickoff t a c w =
      (set_description (init key) (rendered_description t a c w),
       Inr (success_result t a c w x))"
    by (rule create_content_init_returns)
  then show ?thesis by (simp add: get_def success_result_def)
next
  fix e assume "kickoff (set_description (init key) (rendered_description t a c w))
                  = Inl (Exception e)"
  then have "create_content (init key) kickoff t a c w =
      (set_description (init key) (rendered_description t a c w),
       Inr (simulation_result t a c w))"
    by (rule create_content_init_caught)
  then show ?thesis by (simp add: get_def simulation_result_def)
qed

section \<open>Facts about successive calls\<close>

lemma crew_create_content:
  "crew (fst (create_content self kickoff t a c w)) = crew self"
  using fst_create_content_cases [of self kickoff t a c w]
  by (auto simp: set_description_def)

lemma create_content_seq_registry:
  "stage_registry (create_content_seq self calls) = stage_registry self \<and>
   crew (create_content_seq self calls) = crew self"
proof (induction calls arbitrary: self)
  case Nil
  show ?case by simp
next
  case (Cons call calls)
  obtain kickoff t a c w where call: "call = (kickoff, t, a, c, w)"
    by (cases call) auto
  show ?case
    unfolding call
    by (simp add: Cons.IH stage_registry_create_content crew_create_content)
qed

lemma stage_registry_init:
  "stage_registry (init key) =
     [(''Content Writer'', [SerperDevTool], False), (''Content Editor'', [], False),
      (''SEO Specialist'', [SerperDevTool], False)]"
  by (simp add: stage_registry_def init_def Let_def setup_agents_def setup_tasks_def
        setup_crew_def)

lemma crew_init: "crew (init key) = setup_crew"
  by (simp add: init_def Let_def setup_agents_def setup_tasks_def)

lemma editing_seo_unchanged:
  "editing_task (fst (create_content self kickoff t a c w)) = editing_task self \<and>
   seo_task (fst (create_content self kickoff t a c w)) = seo_task self"
  using fst_create_content_cases [of self kickoff t a c w]
  by (auto simp: set_description_def)

text \<open>
  The first call on a new team stores the description rendered from its parameters; no
  call changes the editing task or the SEO task.
\<close>

lemma description_rendered_in_place:
  "description (writing_task
     (fst (create_content (init key) kickoff topic audience content_type word_count)))
     = rendered_description topic audience content_type word_count \<and>
   editing_task (fst (create_content self kickoff topic audience content_type word_count))
     = editing_task self \<and>
   seo_task (fst (create_content self kickoff topic audience content_type word_count))
     = seo_task self"
  by (simp add: fst_create_content_init editing_seo_unchanged set_description_def)

section \<open>The claims\<close>

text \<open>
  C1. The claim is that every call with valid parameters returns a dictionary whose
  status is \<open>"success"\<close> or \<open>"simulation"\<close>. The code does not keep it on a team that is
  used again: the call formats what the call before left in the description, outside
  the \<open>try\<close>. When the first call's topic was \<open>{x}\<close>, that call returns its
  dictionary, and the next call, with plain parameters and a crew that would succeed,
  raises \<open>KeyError\<close> for the field \<open>x\<close> before the crew is started.
\<close>

theorem reused_team_raises_key_error:
  "snd (create_content (init None)
          (kickoff_returns ''one'' :: ContentCreationTeam \<Rightarrow> unit raised + string)
          ''{x}'' ''A'' ''blog post'' ''800-1000'')
     = Inr (success_result ''{x}'' ''A'' ''blog post'' ''800-1000'' ''one'') \<and>
   snd (create_content
          (fst (create_content (init None)
                  (kickoff_returns ''one'' :: ContentCreationTeam \<Rightarrow> unit raised + string)
                  ''{x}'' ''A'' ''blog post'' ''800-1000''))
          (kickoff_returns ''two'' :: ContentCreationTeam \<Rightarrow> unit raised + string)
          ''T'' ''A'' ''blog post'' ''800-1000'')
     = Inl (Format_error (KeyError ''x''))"
proof -
  define pre where "pre = ''Create original, engaging content on the given topic. The content should be:\<newline>            - Well-researched and informative\<newline>            - Engaging and easy to read\<newline>            - Structured with clear headings and sections\<newline>            - Tailored to the target audience\<newline>            - Original and plagiarism-free\<newline>            \<newline>            Topic: ''"
  define post where "post = ''\<newline>            Target Audience: A\<newline>            Content Type: blog post\<newline>            Word Count: 800-1000\<newline>            \<newline>            Provide the complete content with proper formatting.''"
  define d where "d = rendered_description ''{x}'' ''A'' ''blog post'' ''800-1000''"
  let ?kw = "format_kwargs ''T'' ''A'' ''blog post'' ''800-1000''"
  have split: "d = pre @ CHR ''{'' # ''x'' @ CHR ''}'' # post"
    by (simp add: d_def pre_def post_def rendered_description_def)
  have pre: "CHR ''{'' \<notin> set pre" "CHR ''}'' \<notin> set pre"
    by (simp_all add: pre_def)
  have "format_str ?kw (CHR ''{'' # ''x'' @ CHR ''}'' # post) = Inl (KeyError ''x'')"
    by (rule format_field_missing) (simp_all add: format_kwargs_def is_special_def is_digit_def)
  then have fd: "format_str ?kw d = Inl (KeyError ''x'')"
    unfolding split by (simp only: format_literal [OF pre] emit_Inl)
  have "description (writing_task (set_description (init None) d)) = d"
    by (simp add: set_description_def)
  with fd have "format_str ?kw (description (writing_task (set_description (init None) d)))
                  = Inl (KeyError ''x'')"
    by (simp only:)
  then have "create_content (set_description (init None) d)
               (kickoff_returns ''two'' :: ContentCreationTeam \<Rightarrow> unit raised + string)
               ''T'' ''A'' ''blog post'' ''800-1000''
             = (set_description (init None) d, Inl (Format_error (KeyError ''x'')))"
    by (rule create_content_format_error)
  then have second: "snd (create_content
          (fst (create_content (init None)
                  (kickoff_returns ''one'' :: ContentCreationTeam \<Rightarrow> unit raised + string)
                  ''{x}'' ''A'' ''blog post'' ''800-1000''))
          (kickoff_returns ''two'' :: ContentCreationTeam \<Rightarrow> unit raised + string)
          ''T'' ''A'' ''blog post'' ''800-1000'')
     = Inl (Format_error (KeyError ''x''))"
    by (simp only: fst_create_content_init d_def [symmetric] snd_conv)
  have "(kickoff_returns ''one'' :: ContentCreationTeam \<Rightarrow> unit raised + string)
          (set_description (init None) d) = Inr ''one''"
    by (simp add: kickoff_returns_def)
  then have "create_content (init None)
          (kickoff_returns ''one'' :: ContentCreationTeam \<Rightarrow> unit raised + string)
          ''{x}'' ''A'' ''blog post'' ''800-1000''
     = (set_description (init None) d,
        Inr (success_result ''{x}'' ''A'' ''blog post'' ''800-1000'' ''one''))"
    unfolding d_def by (rule create_content_init_returns)
  then have first: "snd (create_content (init None)
          (kickoff_returns ''one'' :: ContentCreationTeam \<Rightarrow> unit raised + string)
          ''{x}'' ''A'' ''blog post'' ''800-1000'')
     = Inr (success_result ''{x}'' ''A'' ''blog post'' ''800-1000'' ''one'')"
    by (simp only: snd_conv)
  from first second show ?thesis by (rule conjI)
qed

text \<open>
  C2, as stated, fails: \<open>create_content\<close> checks none of its parameters. With the word
  count \<open>"abc"\<close> the crew is started and, when it returns \<open>X\<close>, the success dictionary
  carries \<open>X\<close>; with an empty topic, the word count \<open>"1000-800"\<close> and a failing
  crew the simulation dictionary is returned.
\<close>

theorem malformed_parameters_reach_kickoff:
  "snd (create_content (init None)
          (kickoff_returns ''X'' :: ContentCreationTeam \<Rightarrow> unit raised + string)
          ''T'' ''A'' ''blog post'' ''abc'')
     = Inr [(''status'', Str ''success''),
            (''message'', Str ''Content created successfully!''),
            (''result'', CrewOutput ''X''),
            (''apis_used'', List [''Gemini 2.5 Flash API'', ''Serper API'']),
            (''topic'', Str ''T''),
            (''audience'', Str ''A''),
            (''content_type'', Str ''blog post''),
            (''word_count'', Str ''abc'')] \<and>
   call_get (create_content (init None)
          (kickoff_raises () :: ContentCreationTeam \<Rightarrow> unit raised + string)
          '''' ''A'' ''blog post'' ''1000-800'') ''status''
     = Inr (Some (Str ''simulation''))"
  by (simp add: create_content_init_returns create_content_init_caught kickoff_returns_def
        kickoff_raises_def success_result_def simulation_result_def call_get_def get_def)

text \<open>
  C2, as amended: for every four strings, a call on a freshly constructed team writes the
  rendered description, starts the crew on it, and returns what the crew's outcome
  decides: the success dictionary, the simulation dictionary, or the exception the
  handler does not catch. There is no other outcome, and none that depends on the form
  of the parameters.
\<close>

theorem create_content_does_not_validate:
  "create_content (init key) kickoff topic audience content_type word_count =
     (set_description (init key) (rendered_description topic audience content_type word_count),
      case kickoff (set_description (init key)
                     (rendered_description topic audience content_type word_count)) of
        Inr x \<Rightarrow> Inr (success_result topic audience content_type word_count x)
      | Inl (Exception e) \<Rightarrow> Inr (simulation_result topic audience content_type word_count)
      | Inl (BaseException e) \<Rightarrow> Inl (Uncaught e))"
  by (simp add: create_content_def format_init split: sum.splits raised.splits)

text \<open>
  C3, as stated, fails: the dictionary of the failure path lists the three stages under
  \<open>workflow\<close> and both services under \<open>apis_used\<close>.
\<close>

theorem simulation_reports_workflow_and_apis:
  "call_get (create_content (init None)
          (kickoff_raises () :: ContentCreationTeam \<Rightarrow> unit raised + string)
          ''T'' ''A'' ''blog post'' ''800-1000'') ''workflow''
     = Inr (Some (List
         [''Writer Agent creates content (Gemini 2.5 Flash + Serper)'',
          ''Editor Agent reviews and improves (Gemini 2.5 Flash)'',
          ''SEO Agent optimizes for search engines (Gemini 2.5 Flash + Serper)''])) \<and>
   call_get (create_content (init None)
          (kickoff_raises () :: ContentCreationTeam \<Rightarrow> unit raised + string)
          ''T'' ''A'' ''blog post'' ''800-1000'') ''apis_used''
     = Inr (Some (List [''Gemini 2.5 Flash API'', ''Serper API'']))"
  by (simp add: create_content_init_caught kickoff_raises_def simulation_result_def
        call_get_def get_def)

text \<open>
  C3, as amended: whenever the call reaches the handler (the description was formatted
  and the crew raised an \<open>Exception\<close>), the returned dictionary has the status
  \<open>"simulation"\<close>, the three fixed lines under \<open>workflow\<close>, and
  \<open>["Gemini 2.5 Flash API", "Serper API"]\<close> under \<open>apis_used\<close>.
\<close>

theorem simulation_result_contents:
  assumes "format_str (format_kwargs topic audience content_type word_count)
             (description (writing_task self)) = Inr d"
    and "kickoff (set_description self d) = Inl (Exception e)"
  shows "call_get (create_content self kickoff topic audience content_type word_count) ''status''
           = Inr (Some (Str ''simulation'')) \<and>
         call_get (create_content self kickoff topic audience content_type word_count) ''workflow''
           = Inr (Some (List
               [''Writer Agent creates content (Gemini 2.5 Flash + Serper)'',
                ''Editor Agent reviews and improves (Gemini 2.5 Flash)'',
                ''SEO Agent optimizes for search engines (Gemini 2.5 Flash + Serper)''])) \<and>
         call_get (create_content self kickoff topic audience content_type word_count) ''apis_used''
           = Inr (Some (List [''Gemini 2.5 Flash API'', ''Serper API'']))"
proof -
  have "create_content self kickoff topic audience content_type word_count =
          (set_description self d, Inr (simulation_result topic audience content_type word_count))"
    using assms by (rule create_content_caught)
  then show ?thesis
    by (simp add: simulation_result_def call_get_def get_def)
qed

theorem simulation_result_contents_witness:
  "format_str (format_kwargs ''T'' ''A'' ''blog post'' ''800-1000'')
     (description (writing_task (init None)))
     = Inr (rendered_description ''T'' ''A'' ''blog post'' ''800-1000'') \<and>
   (kickoff_raises () :: ContentCreationTeam \<Rightarrow> unit raised + string)
     (set_description (init None) (rendered_description ''T'' ''A'' ''blog post'' ''800-1000''))
     = Inl (Exception ()) \<and>
   call_get (create_content (init None)
       (kickoff_raises () :: ContentCreationTeam \<Rightarrow> unit raised + string)
       ''T'' ''A'' ''blog post'' ''800-1000'') ''status''
     = Inr (Some (Str ''simulation''))"
proof -
  have f: "format_str (format_kwargs ''T'' ''A'' ''blog post'' ''800-1000'')
     (description (writing_task (init None)))
     = Inr (rendered_description ''T'' ''A'' ''blog post'' ''800-1000'')"
    by (rule format_init)
  have k: "(kickoff_raises () :: ContentCreationTeam \<Rightarrow> unit raised + string)
     (set_description (init None) (rendered_description ''T'' ''A'' ''blog post'' ''800-1000''))
     = Inl (Exception ())"
    by (simp add: kickoff_raises_def)
  from simulation_result_contents
    [where kickoff = "kickoff_raises () :: ContentCreationTeam \<Rightarrow> unit raised + string"
       and self = "init None" and e = "()", OF f k] f k
  show ?thesis by simp
qed

text \<open>
  C4, as stated, fails: the success dictionary has the keys \<open>status\<close>, \<open>message\<close>,
  \<open>result\<close>, \<open>apis_used\<close> and the four parameters, and no list of stages.
\<close>

theorem success_result_has_no_stage_list:
  "map_sum id (map fst) (snd (create_content (init None)
          (kickoff_returns ''X'' :: ContentCreationTeam \<Rightarrow> unit raised + string)
          ''T'' ''A'' ''blog post'' ''800-1000''))
     = Inr [''status'', ''message'', ''result'', ''apis_used'',
            ''topic'', ''audience'', ''content_type'', ''word_count''] \<and>
   call_get (create_content (init None)
          (kickoff_returns ''X'' :: ContentCreationTeam \<Rightarrow> unit raised + string)
          ''T'' ''A'' ''blog post'' ''800-1000'') ''workflow'' = Inr None"
  by (simp add: create_content_init_returns kickoff_returns_def success_result_def
        call_get_def get_def)

text \<open>
  C4, as amended: when the crew returns on a freshly constructed team, the call returns
  the status \<open>"success"\<close> and, under \<open>result\<close>, what the crew returned; the dictionary
  has no \<open>workflow\<close> entry. The order Writer, Editor, SEO is that of the tasks of the
  crew that was started, which runs them sequentially.
\<close>

theorem success_result_contents:
  assumes "kickoff (set_description (init key)
                     (rendered_description topic audience content_type word_count)) = Inr x"
  shows "call_get (create_content (init key) kickoff topic audience content_type word_count)
           ''status'' = Inr (Some (Str ''success'')) \<and>
         call_get (create_content (init key) kickoff topic audience content_type word_count)
           ''result'' = Inr (Some (CrewOutput x)) \<and>
         call_get (create_content (init key) kickoff topic audience content_type word_count)
           ''workflow'' = Inr None \<and>
         map fst (stage_registry
             (fst (create_content (init key) kickoff topic audience content_type word_count)))
           = [''Content Writer'', ''Content Editor'', ''SEO Specialist''] \<and>
         tasks (crew
             (fst (create_content (init key) kickoff topic audience content_type word_count)))
           = [Ref_writing_task, Ref_editing_task, Ref_seo_task] \<and>
         process (crew
             (fst (create_content (init key) kickoff topic audience content_type word_count)))
           = sequential"
proof -
  have "create_content (init key) kickoff topic audience content_type word_count =
          (set_description (init key)
             (rendered_description topic audience content_type word_count),
           Inr (success_result topic audience content_type word_count x))"
    using assms by (rule create_content_init_returns)
  moreover have "crew (set_description (init key) d) = setup_crew" for d
    by (simp add: set_description_def crew_init)
  ultimately show ?thesis
    by (simp add: success_result_def call_get_def get_def stage_registry_set_description
          stage_registry_init setup_crew_def)
qed

theorem success_result_contents_witness:
  "(kickoff_returns ''X'' :: ContentCreationTeam \<Rightarrow> unit raised + string)
     (set_description (init None) (rendered_description ''T'' ''A'' ''blog post'' ''800-1000''))
     = Inr ''X'' \<and>
   call_get (create_content (init None)
       (kickoff_returns ''X'' :: ContentCreationTeam \<Rightarrow> unit raised + string)
       ''T'' ''A'' ''blog post'' ''800-1000'') ''result''
     = Inr (Some (CrewOutput ''X''))"
proof -
  have k: "(kickoff_returns ''X'' :: ContentCreationTeam \<Rightarrow> unit raised + string)
     (set_description (init None) (rendered_description ''T'' ''A'' ''blog post'' ''800-1000''))
     = Inr ''X''"
    by (simp add: kickoff_returns_def)
  from success_result_contents
    [where kickoff = "kickoff_returns ''X'' :: ContentCreationTeam \<Rightarrow> unit raised + string"
       and key = None, OF k] k
  show ?thesis by simp
qed

text \<open>
  C5, as stated, fails: for these parameters and a failing crew the returned dictionary
  is the one below. It has three lines under \<open>workflow\<close> and no payload text; the four
  values are entries of their own.
\<close>

theorem simulation_result_has_no_payload:
  "snd (create_content (init None)
          (kickoff_raises () :: ContentCreationTeam \<Rightarrow> unit raised + string)
          ''T'' ''A'' ''blog post'' ''800-1000'')
     = Inr [(''status'', Str ''simulation''),
            (''message'', Str ''Multi-agent system working in simulation mode''),
            (''workflow'', List
               [''Writer Agent creates content (Gemini 2.5 Flash + Serper)'',
                ''Editor Agent reviews and improves (Gemini 2.5 Flash)'',
                ''SEO Agent optimizes for search engines (Gemini 2.5 Flash + Serper)'']),
            (''topic'', Str ''T''),
            (''audience'', Str ''A''),
            (''content_type'', Str ''blog post''),
            (''word_count'', Str ''800-1000''),
            (''apis_used'', List [''Gemini 2.5 Flash API'', ''Serper API''])]"
  by (simp add: create_content_init_caught kickoff_raises_def simulation_result_def)

text \<open>
  C5, as amended: for the topic \<open>"T"\<close>, the audience \<open>"A"\<close>, the content type
  \<open>"blog post"\<close> and the word count \<open>"800-1000"\<close>, when every start of the crew raises
  an \<open>Exception\<close>, a call on a freshly constructed team returns the status
  \<open>"simulation"\<close>, no \<open>result\<close>, the three fixed lines under \<open>workflow\<close>, and the four
  values under \<open>topic\<close>, \<open>audience\<close>, \<open>content_type\<close> and \<open>word_count\<close>.
\<close>

theorem simulation_result_for_T_A:
  assumes "\<And>s. \<exists>e. kickoff s = Inl (Exception e)"
  shows "call_get (create_content (init key) kickoff ''T'' ''A'' ''blog post'' ''800-1000'')
           ''status'' = Inr (Some (Str ''simulation'')) \<and>
         call_get (create_content (init key) kickoff ''T'' ''A'' ''blog post'' ''800-1000'')
           ''result'' = Inr None \<and>
         call_get (create_content (init key) kickoff ''T'' ''A'' ''blog post'' ''800-1000'')
           ''workflow'' = Inr (Some (List
               [''Writer Agent creates content (Gemini 2.5 Flash + Serper)'',
                ''Editor Agent reviews and improves (Gemini 2.5 Flash)'',
                ''SEO Agent optimizes for search engines (Gemini 2.5 Flash + Serper)''])) \<and>
         call_get (create_content (init key) kickoff ''T'' ''A'' ''blog post'' ''800-1000'')
           ''topic'' = Inr (Some (Str ''T'')) \<and>
         call_get (create_content (init key) kickoff ''T'' ''A'' ''blog post'' ''800-1000'')
           ''audience'' = Inr (Some (Str ''A'')) \<and>
         call_get (create_content (init key) kickoff ''T'' ''A'' ''blog post'' ''800-1000'')
           ''content_type'' = Inr (Some (Str ''blog post'')) \<and>
         call_get (create_content (init key) kickoff ''T'' ''A'' ''blog post'' ''800-1000'')
           ''word_count'' = Inr (Some (Str ''800-1000''))"
proof -
  from assms obtain e where
    "kickoff (set_description (init key)
       (rendered_description ''T'' ''A'' ''blog post'' ''800-1000'')) = Inl (Exception e)"
    by blast
  then show ?thesis
    by (simp add: create_content_init_caught simulation_result_def call_get_def get_def)
qed

theorem simulation_result_for_T_A_witness:
  "(\<forall>s. \<exists>e. (kickoff_raises () :: ContentCreationTeam \<Rightarrow> unit raised + string) s
             = Inl (Exception e)) \<and>
   call_get (create_content (init None)
       (kickoff_raises () :: ContentCreationTeam \<Rightarrow> unit raised + string)
       ''T'' ''A'' ''blog post'' ''800-1000'') ''result'' = Inr None"
proof -
  have h: "\<And>s. \<exists>e. (kickoff_raises () :: ContentCreationTeam \<Rightarrow> unit raised + string) s
             = Inl (Exception e)"
    by (simp add: kickoff_raises_def)
  from simulation_result_for_T_A
    [where kickoff = "kickoff_raises () :: ContentCreationTeam \<Rightarrow> unit raised + string"
       and key = None, OF h] h
  show ?thesis by blast
qed

text \<open>
  C6. The claim is that a second run on the same team renders the writer's instructions
  from the second run's parameters. The code does not: the first call assigns the
  formatted text to \<open>self.writing_task.description\<close>, so the fields are gone, and the
  second call's \<open>format\<close> substitutes nothing. After a call for \<open>X\<close> and a call for
  \<open>Y\<close> the description, which is what the crew of the second call was started on, is
  still the one rendered for \<open>X\<close>, while the dictionary returned carries \<open>Y\<close>.
\<close>

theorem second_run_keeps_first_description:
  "description (writing_task (fst
     (create_content
        (fst (create_content (init None)
                (kickoff_returns ''one'' :: ContentCreationTeam \<Rightarrow> unit raised + string)
                ''X'' ''A'' ''blog post'' ''800-1000''))
        (kickoff_returns ''two'' :: ContentCreationTeam \<Rightarrow> unit raised + string)
        ''Y'' ''B'' ''article'' ''100-200'')))
     = rendered_description ''X'' ''A'' ''blog post'' ''800-1000'' \<and>
   rendered_description ''X'' ''A'' ''blog post'' ''800-1000''
     \<noteq> rendered_description ''Y'' ''B'' ''article'' ''100-200'' \<and>
   snd (create_content
        (fst (create_content (init None)
                (kickoff_returns ''one'' :: ContentCreationTeam \<Rightarrow> unit raised + string)
                ''X'' ''A'' ''blog post'' ''800-1000''))
        (kickoff_returns ''two'' :: ContentCreationTeam \<Rightarrow> unit raised + string)
        ''Y'' ''B'' ''article'' ''100-200'')
     = Inr (success_result ''Y'' ''B'' ''article'' ''100-200'' ''two'')"
proof -
  let ?first = "rendered_description ''X'' ''A'' ''blog post'' ''800-1000''"
  let ?s1 = "set_description (init None) ?first"
  have s1: "fst (create_content (init None)
                (kickoff_returns ''one'' :: ContentCreationTeam \<Rightarrow> unit raised + string)
                ''X'' ''A'' ''blog post'' ''800-1000'') = ?s1"
    by (rule fst_create_content_init)
  have "format_str (format_kwargs ''Y'' ''B'' ''article'' ''100-200'') ?first = Inr ?first"
    by (rule format_no_braces; rule rendered_no_braces; simp)
  then have f: "format_str (format_kwargs ''Y'' ''B'' ''article'' ''100-200'')
                  (description (writing_task ?s1)) = Inr ?first"
    by (simp add: set_description_def)
  have k: "(kickoff_returns ''two'' :: ContentCreationTeam \<Rightarrow> unit raised + string)
             (set_description ?s1 ?first) = Inr ''two''"
    by (simp add: kickoff_returns_def)
  have run2: "create_content ?s1
                (kickoff_returns ''two'' :: ContentCreationTeam \<Rightarrow> unit raised + string)
                ''Y'' ''B'' ''article'' ''100-200''
              = (set_description ?s1 ?first,
                 Inr (success_result ''Y'' ''B'' ''article'' ''100-200'' ''two''))"
    using f k by (rule create_content_returns)
  have ne: "?first \<noteq> rendered_description ''Y'' ''B'' ''article'' ''100-200''"
    by (simp add: rendered_description_def)
  show ?thesis
    unfolding s1 run2 using ne by (simp add: set_description_def)
qed

text \<open>
  C7. The fallback is the handler of \<open>create_content\<close> together with the text the
  caller builds in \<open>show_simulation_content\<close>. Take two calls with the same parameters
  that both reach the handler, on any two teams, with any two collaborators in any
  states and whatever they raised. Both calls return, and return equal dictionaries;
  each leaves the collaborators in the state its one \<open>kickoff\<close> of the \<open>try\<close> block left
  them in, so the handler calls no collaborator; and for any two readings of the clock
  the elements shown for these parameters are the same, the file name of the download
  apart.
\<close>

theorem fallback_is_pure_and_calls_no_collaborator:
  assumes "format_str (format_kwargs topic audience content_type word_count)
             (description (writing_task self_a)) = Inr d_a"
    and "kickoff_a world_a (set_description self_a d_a) = (Inl (Exception e_a), after_a)"
    and "format_str (format_kwargs topic audience content_type word_count)
             (description (writing_task self_b)) = Inr d_b"
    and "kickoff_b world_b (set_description self_b d_b) = (Inl (Exception e_b), after_b)"
  shows "(\<exists>r. snd (fst (create_content_in_world self_a kickoff_a world_a
                         topic audience content_type word_count)) = Inr r \<and>
              snd (fst (create_content_in_world self_b kickoff_b world_b
                         topic audience content_type word_count)) = Inr r) \<and>
         snd (create_content_in_world self_a kickoff_a world_a
                topic audience content_type word_count) = after_a \<and>
         snd (create_content_in_world self_b kickoff_b world_b
                topic audience content_type word_count) = after_b \<and>
         map without_file_name
             (show_simulation_content now_a topic audience content_type word_count) =
           map without_file_name
             (show_simulation_content now_b topic audience content_type word_count)"
proof -
  have a: "create_content_in_world self_a kickoff_a world_a
             topic audience content_type word_count =
           ((set_description self_a d_a,
             Inr (simulation_result topic audience content_type word_count)), after_a)"
    using assms(1,2) by (rule create_content_in_world_caught)
  have b: "create_content_in_world self_b kickoff_b world_b
             topic audience content_type word_count =
           ((set_description self_b d_b,
             Inr (simulation_result topic audience content_type word_count)), after_b)"
    using assms(3,4) by (rule create_content_in_world_caught)
  have ui: "map without_file_name
             (show_simulation_content now_a topic audience content_type word_count) =
           map without_file_name
             (show_simulation_content now_b topic audience content_type word_count)"
    by (simp add: show_simulation_content_def Let_def)
  from a b ui show ?thesis by simp
qed

theorem fallback_is_pure_and_calls_no_collaborator_witness:
  "format_str (format_kwargs ''T'' ''A'' ''blog post'' ''800-1000'')
     (description (writing_task (init None)))
     = Inr (rendered_description ''T'' ''A'' ''blog post'' ''800-1000'') \<and>
   (kickoff_counting () :: nat \<Rightarrow> ContentCreationTeam \<Rightarrow> (unit raised + string) \<times> nat) 0
     (set_description (init None) (rendered_description ''T'' ''A'' ''blog post'' ''800-1000''))
     = (Inl (Exception ()), 1) \<and>
   format_str (format_kwargs ''T'' ''A'' ''blog post'' ''800-1000'')
     (description (writing_task
        (set_description (init None)
           (rendered_description ''T'' ''A'' ''blog post'' ''800-1000''))))
     = Inr (rendered_description ''T'' ''A'' ''blog post'' ''800-1000'') \<and>
   (kickoff_counting () :: nat \<Rightarrow> ContentCreationTeam \<Rightarrow> (unit raised + string) \<times> nat) 1
     (set_description
        (set_description (init None)
           (rendered_description ''T'' ''A'' ''blog post'' ''800-1000''))
        (rendered_description ''T'' ''A'' ''blog post'' ''800-1000''))
     = (Inl (Exception ()), 2) \<and>
   fst (fst (create_content_in_world (init None)
     (kickoff_counting () :: nat \<Rightarrow> ContentCreationTeam \<Rightarrow> (unit raised + string) \<times> nat) 0
     ''T'' ''A'' ''blog post'' ''800-1000''))
     = set_description (init None)
         (rendered_description ''T'' ''A'' ''blog post'' ''800-1000'') \<and>
   snd (create_content_in_world (init None)
     (kickoff_counting () :: nat \<Rightarrow> ContentCreationTeam \<Rightarrow> (unit raised + string) \<times> nat) 0
     ''T'' ''A'' ''blog post'' ''800-1000'') = 1 \<and>
   snd (create_content_in_world
     (set_description (init None) (rendered_description ''T'' ''A'' ''blog post'' ''800-1000''))
     (kickoff_counting () :: nat \<Rightarrow> ContentCreationTeam \<Rightarrow> (unit raised + string) \<times> nat) 1
     ''T'' ''A'' ''blog post'' ''800-1000'') = 2 \<and>
   snd (fst (create_content_in_world
     (set_description (init None) (rendered_description ''T'' ''A'' ''blog post'' ''800-1000''))
     (kickoff_counting () :: nat \<Rightarrow> ContentCreationTeam \<Rightarrow> (unit raised + string) \<times> nat) 1
     ''T'' ''A'' ''blog post'' ''800-1000''))
     = snd (fst (create_content_in_world (init None)
         (kickoff_counting () :: nat \<Rightarrow> ContentCreationTeam \<Rightarrow> (unit raised + string) \<times> nat) 0
         ''T'' ''A'' ''blog post'' ''800-1000'')) \<and>
   map without_file_name
     (show_simulation_content ''20260101_090000'' ''T'' ''A'' ''blog post'' ''800-1000'')
     = map without_file_name
         (show_simulation_content ''20260102_101500'' ''T'' ''A'' ''blog post'' ''800-1000'')"
proof -
  let ?d = "rendered_description ''T'' ''A'' ''blog post'' ''800-1000''"
  let ?k = "kickoff_counting () :: nat \<Rightarrow> ContentCreationTeam \<Rightarrow> (unit raised + string) \<times> nat"
  let ?s = "set_description (init None) ?d"
  have f_a: "format_str (format_kwargs ''T'' ''A'' ''blog post'' ''800-1000'')
               (description (writing_task (init None))) = Inr ?d"
    by (rule format_init)
  have k_a: "?k 0 (set_description (init None) ?d) = (Inl (Exception ()), 1)"
    by (simp add: kickoff_counting_def)
  have "format_str (format_kwargs ''T'' ''A'' ''blog post'' ''800-1000'') ?d = Inr ?d"
    by (rule format_no_braces; rule rendered_no_braces; simp)
  then have f_b: "format_str (format_kwargs ''T'' ''A'' ''blog post'' ''800-1000'')
               (description (writing_task ?s)) = Inr ?d"
    by (simp add: set_description_def)
  have k_b: "?k 1 (set_description ?s ?d) = (Inl (Exception ()), 2)"
    by (simp add: kickoff_counting_def)
  have first: "create_content_in_world (init None) ?k 0 ''T'' ''A'' ''blog post'' ''800-1000''
                 = ((?s, Inr (simulation_result ''T'' ''A'' ''blog post'' ''800-1000'')), 1)"
    using f_a k_a by (rule create_content_in_world_caught)
  note inst = fallback_is_pure_and_calls_no_collaborator
    [where kickoff_a = ?k and kickoff_b = ?k and self_a = "init None" and self_b = ?s
       and world_a = 0 and world_b = 1 and e_a = "()" and e_b = "()"
       and after_a = 1 and after_b = 2
       and now_a = "''20260101_090000''" and now_b = "''20260102_101500''"
       and topic = "''T''" and audience = "''A''" and content_type = "''blog post''"
       and word_count = "''800-1000''", OF f_a k_a f_b k_b]
  from inst f_a k_a f_b k_b first show ?thesis
    by (simp only: fst_conv snd_conv) blast
qed

text \<open>
  C8. The crew runs exactly three stages, Content Writer, Content Editor, SEO Specialist,
  in this order and sequentially; the writer and the SEO specialist hold the search tool,
  the editor holds no tool, and no agent may delegate. This is so on a new team and
  after any sequence of calls of \<open>create_content\<close>, so in no run is the editor's stage
  given the search tool.
\<close>

theorem stage_registry_fixed:
  "stage_registry (create_content_seq (init key) calls) =
     [(''Content Writer'', [SerperDevTool], False), (''Content Editor'', [], False),
      (''SEO Specialist'', [SerperDevTool], False)] \<and>
   tasks (crew (create_content_seq (init key) calls)) =
     [Ref_writing_task, Ref_editing_task, Ref_seo_task] \<and>
   agents (crew (create_content_seq (init key) calls)) =
     [Ref_writer_agent, Ref_editor_agent, Ref_seo_agent] \<and>
   process (crew (create_content_seq (init key) calls)) = sequential"
  by (simp add: create_content_seq_registry stage_registry_init crew_init setup_crew_def)

text \<open>
  C9. Every dictionary \<open>create_content\<close> returns, the success one and the simulation one
  alike, carries the four arguments of the call unchanged under \<open>topic\<close>, \<open>audience\<close>,
  \<open>content_type\<close> and \<open>word_count\<close>.
\<close>

theorem create_content_echoes_parameters:
  assumes "snd (create_content self kickoff topic audience content_type word_count) = Inr r"
  shows "get r ''topic'' = Some (Str topic) \<and>
         get r ''audience'' = Some (Str audience) \<and>
         get r ''content_type'' = Some (Str content_type) \<and>
         get r ''word_count'' = Some (Str word_count)"
  using assms
  by (auto simp: create_content_def get_def success_result_def simulation_result_def
           split: sum.splits raised.splits)

theorem create_content_echoes_parameters_witness:
  "snd (create_content (init None)
          (kickoff_returns ''X'' :: ContentCreationTeam \<Rightarrow> unit raised + string)
          ''T'' ''A'' ''blog post'' ''800-1000'')
     = Inr (success_result ''T'' ''A'' ''blog post'' ''800-1000'' ''X'') \<and>
   get (success_result ''T'' ''A'' ''blog post'' ''800-1000'' ''X'' :: string dict) ''topic''
     = Some (Str ''T'') \<and>
   get (success_result ''T'' ''A'' ''blog post'' ''800-1000'' ''X'' :: string dict) ''audience''
     = Some (Str ''A'') \<and>
   get (success_result ''T'' ''A'' ''blog post'' ''800-1000'' ''X'' :: string dict) ''content_type''
     = Some (Str ''blog post'') \<and>
   get (success_result ''T'' ''A'' ''blog post'' ''800-1000'' ''X'' :: string dict) ''word_count''
     = Some (Str ''800-1000'')"
proof -
  have h: "snd (create_content (init None)
          (kickoff_returns ''X'' :: ContentCreationTeam \<Rightarrow> unit raised + string)
          ''T'' ''A'' ''blog post'' ''800-1000'')
     = Inr (success_result ''T'' ''A'' ''blog post'' ''800-1000'' ''X'')"
    by (simp add: create_content_returns [OF format_init] kickoff_returns_def)
  from create_content_echoes_parameters [OF h] h show ?thesis by simp
qed

text \<open>
  C10. A call that passes the topic only behaves as the call that passes
  \<open>"general audience"\<close>, \<open>"blog post"\<close> and \<open>"800-1000"\<close> for the other three.
\<close>

theorem create_content_defaults:
  "create_content_call self kickoff topic None None None =
     create_content_call self kickoff topic
       (Some ''general audience'') (Some ''blog post'') (Some ''800-1000'') \<and>
   create_content_call self kickoff topic None None None =
     create_content self kickoff topic ''general audience'' ''blog post'' ''800-1000''"
  by (simp add: create_content_call_def)

end
